theory Spec2Isabelle
  imports Complex_Main "HOL-Library.Sublist"
begin

section \<open>Data model\<close>

text \<open>
  The sales pipeline of \<^verbatim>\<open>TEST/scripts/sales_prediction_model.py\<close> works on pandas
  data frames. Calendar dates are day numbers (days since 1970-01-01, the time of day
  already truncated by line 97), numbers are exact rationals, and a missing cell
  (\<^verbatim>\<open>NaN\<close>, \<^verbatim>\<open>NaT\<close>) is \<open>None\<close>. Every exception the modelled lines can raise is
  a value of \<open>error\<close>; \<open>EmptyInputError\<close> is the error class named by the
  specification's taxonomy, which no line of the source constructs.
\<close>

datatype error = ValueError | KeyError | IndexError | EmptyInputError

datatype val = Num rat | Str string | Stamp int

datatype dtype = Numeric | Object | Datetime

record column =
  cname :: string
  ctype :: dtype
  cells :: "val option list"

type_synonym dataframe = "column list"

record sales_record =
  date :: int
  category :: string
  quantity_sold :: rat

section \<open>Schema resolver\<close>

text \<open>
  \<^verbatim>\<open>str.lower()\<close> on the ASCII letters; every other character is left as it is.
\<close>

definition lower_char :: "char \<Rightarrow> char" where
  "lower_char c =
     (case map_of (zip ''ABCDEFGHIJKLMNOPQRSTUVWXYZ'' ''abcdefghijklmnopqrstuvwxyz'') c of
        None \<Rightarrow> c
      | Some l \<Rightarrow> l)"

definition lower :: "string \<Rightarrow> string" where
  "lower s = map lower_char s"

text \<open>\<^verbatim>\<open>pattern.lower() in col.lower()\<close>: Python's substring test.\<close>

definition pattern_in :: "string \<Rightarrow> string \<Rightarrow> bool" where
  "pattern_in pattern col = sublist (lower pattern) (lower col)"

definition matching_cols :: "string list \<Rightarrow> string \<Rightarrow> string list" where
  "matching_cols cols pattern = [col \<leftarrow> cols. pattern_in pattern col]"

text \<open>
  \<^verbatim>\<open>find_column_by_pattern(df, patterns)\<close>, on \<^verbatim>\<open>df.columns\<close>. The fallback
  \<^verbatim>\<open>df.columns[0]\<close> raises on a frame without columns.
\<close>

fun find_column_by_pattern :: "string list \<Rightarrow> string list \<Rightarrow> error + string" where
  "find_column_by_pattern cols [] = (case cols of [] \<Rightarrow> Inl IndexError | c # _ \<Rightarrow> Inr c)"
| "find_column_by_pattern cols (pattern # patterns) =
     (case matching_cols cols pattern of
        [] \<Rightarrow> find_column_by_pattern cols patterns
      | m # _ \<Rightarrow> Inr m)"

section \<open>Forward fill\<close>

text \<open>
  \<^verbatim>\<open>Series.fillna(method='ffill')\<close>: a missing cell takes the last valid value above
  it in row order; \<open>prev\<close> is that value, \<open>None\<close> while none has been seen.
\<close>

fun ffill_from :: "'a option \<Rightarrow> 'a option list \<Rightarrow> 'a option list" where
  "ffill_from prev [] = []"
| "ffill_from prev (None # xs) = prev # ffill_from prev xs"
| "ffill_from prev (Some v # xs) = Some v # ffill_from (Some v) xs"

definition ffill :: "'a option list \<Rightarrow> 'a option list" where
  "ffill xs = ffill_from None xs"

section \<open>Calendar completer\<close>

text \<open>\<^verbatim>\<open>Series.min()\<close> and \<^verbatim>\<open>Series.max()\<close> of a date column: \<^verbatim>\<open>NaT\<close> when it is empty.\<close>

definition series_min :: "int list \<Rightarrow> int option" where
  "series_min ds = (case ds of [] \<Rightarrow> None | d # ds' \<Rightarrow> Some (foldl min d ds'))"

definition series_max :: "int list \<Rightarrow> int option" where
  "series_max ds = (case ds of [] \<Rightarrow> None | d # ds' \<Rightarrow> Some (foldl max d ds'))"

text \<open>
  \<^verbatim>\<open>pd.date_range(start, end, freq='D')\<close>: every day from start to end inclusive;
  pandas raises \<^verbatim>\<open>ValueError\<close> when either bound is \<^verbatim>\<open>NaT\<close>.
\<close>

definition date_range :: "int option \<Rightarrow> int option \<Rightarrow> error + int list" where
  "date_range start stop =
     (case start of
        None \<Rightarrow> Inl ValueError
      | Some a \<Rightarrow> (case stop of None \<Rightarrow> Inl ValueError | Some b \<Rightarrow> Inr [a..b]))"

text \<open>\<^verbatim>\<open>Series.unique()\<close>: the distinct values in order of first appearance.\<close>

definition unique :: "'a list \<Rightarrow> 'a list" where
  "unique xs = rev (remdups (rev xs))"

text \<open>
  \<^verbatim>\<open>date_category_df.merge(daily_sales, on=['date', category_col], how='left')\<close>:
  each grid row, in grid order, once per matching sales row, or once with a missing
  quantity when none matches.
\<close>

definition merge_sales :: "(int \<times> string) list \<Rightarrow> sales_record list \<Rightarrow> (int \<times> string \<times> rat option) list" where
  "merge_sales date_category daily_sales =
     concat (map (\<lambda>(d, c).
       case [r \<leftarrow> daily_sales. date r = d \<and> category r = c] of
         [] \<Rightarrow> [(d, c, None)]
       | ms \<Rightarrow> map (\<lambda>r. (d, c, Some (quantity_sold r))) ms) date_category)"

definition fillna :: "'a \<Rightarrow> 'a option \<Rightarrow> 'a" where
  "fillna v x = (case x of None \<Rightarrow> v | Some y \<Rightarrow> y)"

text \<open>
  Lines 114 to 126 of \<^verbatim>\<open>load_and_prepare_data\<close>: the dense date by category grid of
  the aggregated \<^verbatim>\<open>daily_sales\<close>, row order date-major as
  \<^verbatim>\<open>MultiIndex.from_product\<close> gives it.
\<close>

definition complete :: "sales_record list \<Rightarrow> error + sales_record list" where
  "complete daily_sales =
     (let min_date = series_min (map date daily_sales);
          max_date = series_max (map date daily_sales)
      in case date_range min_date max_date of
           Inl e \<Rightarrow> Inl e
         | Inr all_dates \<Rightarrow>
             (let date_category = List.product all_dates (unique (map category daily_sales));
                  complete_sales = merge_sales date_category daily_sales
              in Inr (map (\<lambda>(d, c, q). \<lparr>date = d, category = c, quantity_sold = fillna 0 q\<rparr>)
                        complete_sales)))"

section \<open>Feature builder\<close>

text \<open>
  The \<^verbatim>\<open>.dt\<close> accessors of a date column, on day numbers. Day 0 is Thursday
  1970-01-01 and \<^verbatim>\<open>dayofweek\<close> counts Monday as 0; year, month and day of month follow
  the proleptic Gregorian calendar.
\<close>

definition dt_dayofweek :: "int \<Rightarrow> int" where
  "dt_dayofweek d = (d + 3) mod 7"

definition civil :: "int \<Rightarrow> int \<times> int \<times> int" where
  "civil d =
     (let z = d + 719468;
          era = z div 146097;
          doe = z mod 146097;
          yoe = (doe - doe div 1460 + doe div 36524 - doe div 146096) div 365;
          doy = doe - (365 * yoe + yoe div 4 - yoe div 100);
          mp = (5 * doy + 2) div 153;
          m = (if mp < 10 then mp + 3 else mp - 9);
          y = yoe + era * 400
      in (if m \<le> 2 then y + 1 else y, m, doy - (153 * mp + 2) div 5 + 1))"

definition dt_year :: "int \<Rightarrow> int" where
  "dt_year d = fst (civil d)"

definition dt_month :: "int \<Rightarrow> int" where
  "dt_month d = fst (snd (civil d))"

definition dt_day :: "int \<Rightarrow> int" where
  "dt_day d = snd (snd (civil d))"

definition dt_quarter :: "int \<Rightarrow> int" where
  "dt_quarter d = (dt_month d - 1) div 3 + 1"

definition is_weekend :: "int \<Rightarrow> int" where
  "is_weekend d = (if dt_dayofweek d \<ge> 5 then 1 else 0)"

definition int_column :: "string \<Rightarrow> int list \<Rightarrow> column" where
  "int_column name xs = \<lparr>cname = name, ctype = Numeric, cells = map (\<lambda>x. Some (Num (of_int x))) xs\<rparr>"

definition date_column :: "string \<Rightarrow> int list \<Rightarrow> column" where
  "date_column name ds = \<lparr>cname = name, ctype = Datetime, cells = map (\<lambda>d. Some (Stamp d)) ds\<rparr>"

text \<open>\<^verbatim>\<open>df[name]\<close>: the column of that name, \<^verbatim>\<open>KeyError\<close> when there is none.\<close>

definition get_column :: "dataframe \<Rightarrow> string \<Rightarrow> error + column" where
  "get_column df name = (case [c \<leftarrow> df. cname c = name] of [] \<Rightarrow> Inl KeyError | c # _ \<Rightarrow> Inr c)"

text \<open>\<^verbatim>\<open>df[name] = ...\<close>: replaces the column of that name in place, or appends a new one.\<close>

definition set_column :: "dataframe \<Rightarrow> column \<Rightarrow> dataframe" where
  "set_column df c =
     (if cname c \<in> set (map cname df)
      then map (\<lambda>c'. if cname c' = cname c then c else c') df
      else df @ [c])"

text \<open>
  Lines 129 to 134 and 253 to 258: the six calendar columns, assigned one after the
  other from the frame's dates.
\<close>

definition add_time_features :: "dataframe \<Rightarrow> int list \<Rightarrow> dataframe" where
  "add_time_features df dates =
     foldl set_column df
       [int_column ''dayofweek'' (map dt_dayofweek dates),
        int_column ''month'' (map dt_month dates),
        int_column ''day'' (map dt_day dates),
        int_column ''year'' (map dt_year dates),
        int_column ''quarter'' (map dt_quarter dates),
        int_column ''is_weekend'' (map is_weekend dates)]"

text \<open>The completed grid as a frame: \<^verbatim>\<open>date\<close>, the category column, \<^verbatim>\<open>quantity_sold\<close>.\<close>

definition sales_frame :: "string \<Rightarrow> sales_record list \<Rightarrow> dataframe" where
  "sales_frame category_col grid =
     [date_column ''date'' (map date grid),
      \<lparr>cname = category_col, ctype = Object, cells = map (\<lambda>r. Some (Str (category r))) grid\<rparr>,
      \<lparr>cname = ''quantity_sold'', ctype = Numeric, cells = map (\<lambda>r. Some (Num (quantity_sold r))) grid\<rparr>]"

text \<open>
  \<^verbatim>\<open>left.merge(right, left_on=..., right_on=..., how='left')\<close>. \<open>merge_index\<close> pairs
  each left row, in order, with every right row of equal key, or with no row; the merged
  frame takes the left columns, then the right ones (without the key when both keys
  have one name), and a name held by both sides gets the suffixes \<^verbatim>\<open>_x\<close> and \<^verbatim>\<open>_y\<close>.
\<close>

definition merge_index :: "val option list \<Rightarrow> val option list \<Rightarrow> (nat \<times> nat option) list" where
  "merge_index lkeys rkeys =
     concat (map (\<lambda>i.
       case [j \<leftarrow> [0..<length rkeys]. rkeys ! j = lkeys ! i] of
         [] \<Rightarrow> [(i, None)]
       | js \<Rightarrow> map (\<lambda>j. (i, Some j)) js) [0..<length lkeys])"

definition take_left :: "(nat \<times> nat option) list \<Rightarrow> column \<Rightarrow> column" where
  "take_left idx c = c\<lparr>cells := map (\<lambda>(i, j). cells c ! i) idx\<rparr>"

definition take_right :: "(nat \<times> nat option) list \<Rightarrow> column \<Rightarrow> column" where
  "take_right idx c =
     c\<lparr>cells := map (\<lambda>(i, j). case j of None \<Rightarrow> None | Some j' \<Rightarrow> cells c ! j') idx\<rparr>"

definition add_suffix :: "string \<Rightarrow> string list \<Rightarrow> column \<Rightarrow> column" where
  "add_suffix sfx overlap c = (if cname c \<in> set overlap then c\<lparr>cname := cname c @ sfx\<rparr> else c)"

definition merge_left :: "dataframe \<Rightarrow> string \<Rightarrow> dataframe \<Rightarrow> string \<Rightarrow> error + dataframe" where
  "merge_left left left_on right right_on =
     (case get_column left left_on of
        Inl e \<Rightarrow> Inl e
      | Inr lk \<Rightarrow>
          (case get_column right right_on of
             Inl e \<Rightarrow> Inl e
           | Inr rk \<Rightarrow>
               (let idx = merge_index (cells lk) (cells rk);
                    right' = (if left_on = right_on then [c \<leftarrow> right. cname c \<noteq> right_on] else right);
                    overlap = [n \<leftarrow> map cname left. n \<in> set (map cname right')]
                in Inr (map (\<lambda>c. add_suffix ''_x'' overlap (take_left idx c)) left @
                        map (\<lambda>c. add_suffix ''_y'' overlap (take_right idx c)) right'))))"

text \<open>
  Lines 114 to 143 of \<^verbatim>\<open>load_and_prepare_data\<close>, from the aggregated
  \<^verbatim>\<open>daily_sales\<close> (line 112), the resolved category column name, and the
  external-factor frame with its resolved date column already converted to dates
  (line 100). Selecting \<^verbatim>\<open>complete_sales[external_factor_cols]\<close> raises
  \<^verbatim>\<open>KeyError\<close> when a factor's name is not a column of the merged frame.
\<close>

definition load_and_prepare_data ::
    "sales_record list \<Rightarrow> string \<Rightarrow> dataframe \<Rightarrow> string \<Rightarrow> error + dataframe" where
  "load_and_prepare_data daily_sales category_col external_factors external_factors_date_col =
     (case complete daily_sales of
        Inl e \<Rightarrow> Inl e
      | Inr grid \<Rightarrow>
          (let complete_sales = add_time_features (sales_frame category_col grid) (map date grid)
           in case merge_left complete_sales ''date'' external_factors external_factors_date_col of
                Inl e \<Rightarrow> Inl e
              | Inr merged \<Rightarrow>
                  (let external_factor_cols =
                         [col \<leftarrow> map cname external_factors. col \<noteq> external_factors_date_col]
                   in if set external_factor_cols \<subseteq> set (map cname merged)
                      then Inr (map (\<lambda>c. if cname c \<in> set external_factor_cols
                                          then c\<lparr>cells := ffill (cells c)\<rparr> else c) merged)
                      else Inl KeyError)))"



text \<open>
  The grid row the completer produces for one (date, category) pair when the sales rows
  have pairwise different pairs: the matching row's quantity, or zero. Used to state and
  prove the properties of \<open>complete\<close>, not part of the program.
\<close>

definition grid_cell :: "sales_record list \<Rightarrow> int \<times> string \<Rightarrow> sales_record" where
  "grid_cell S = (\<lambda>(d, c). \<lparr>date = d, category = c,
     quantity_sold = (case [r \<leftarrow> S. date r = d \<and> category r = c] of [] \<Rightarrow> 0 | r # _ \<Rightarrow> quantity_sold r)\<rparr>)"

text \<open>
  The columns that \<^verbatim>\<open>generate_forecast\<close> (lines 262 and 263) does not take for
  external factors; they are also the columns of the completed sales frame before the
  external-factor merge.
\<close>

definition base_columns :: "string \<Rightarrow> string list" where
  "base_columns category_col =
     [''date'', category_col, ''quantity_sold'', ''dayofweek'', ''month'', ''day'', ''year'',
      ''quarter'', ''is_weekend'']"


text \<open>
  The specification's scenario B as data: sales on 2024-01-01 and 2024-01-02, and one
  external-factor row, \<^verbatim>\<open>political_climate = 3\<close> on 2024-01-01.
\<close>

definition scenario_sales :: "sales_record list" where
  "scenario_sales =
     [\<lparr>date = 19723, category = ''rifle'', quantity_sold = 2\<rparr>,
      \<lparr>date = 19724, category = ''ammunition'', quantity_sold = 5\<rparr>]"

definition scenario_factors :: dataframe where
  "scenario_factors =
     [date_column ''date'' [19723], int_column ''political_climate'' [3]]"

section \<open>Category model trainer: feature preparation\<close>

text \<open>
  \<^verbatim>\<open>df[mask]\<close> on one column: the cells of the rows whose mask entry \<open>keep\<close> is true.
\<close>

definition select_rows :: "bool list \<Rightarrow> column \<Rightarrow> column" where
  "select_rows keep c = c\<lparr>cells := map fst (filter snd (zip (cells c) keep))\<rparr>"

text \<open>\<^verbatim>\<open>df.drop(names, axis=1)\<close>: \<^verbatim>\<open>KeyError\<close> when a name is not a column.\<close>

definition drop_columns :: "string list \<Rightarrow> dataframe \<Rightarrow> error + dataframe" where
  "drop_columns names df =
     (if set names \<subseteq> set (map cname df) then Inr [c \<leftarrow> df. cname c \<notin> set names]
      else Inl KeyError)"

definition is_numeric_dtype :: "column \<Rightarrow> bool" where
  "is_numeric_dtype c = (ctype c = Numeric)"

text \<open>\<^verbatim>\<open>Series.dropna()\<close>: the values that are present, in row order.\<close>

definition dropna :: "'a option list \<Rightarrow> 'a list" where
  "dropna xs = map the [x \<leftarrow> xs. x \<noteq> None]"

fun nums :: "val option list \<Rightarrow> rat list" where
  "nums [] = []"
| "nums (Some (Num q) # xs) = q # nums xs"
| "nums (_ # xs) = nums xs"

text \<open>
  \<^verbatim>\<open>Series.mean()\<close> of a numeric column: missing cells are skipped, and the mean of no
  value is missing. Floating-point rounding is not modelled: the mean is the exact
  quotient.
\<close>

definition mean :: "val option list \<Rightarrow> val option" where
  "mean xs = (case nums xs of [] \<Rightarrow> None | q # qs \<Rightarrow> Some (Num (sum_list (q # qs) / of_nat (length (q # qs)))))"

text \<open>
  The order in which \<^verbatim>\<open>Series.mode()\<close> sorts its result: numbers and dates by value,
  strings character by character. A column holds values of one kind; between kinds the
  order is fixed arbitrarily.
\<close>

fun str_le :: "string \<Rightarrow> string \<Rightarrow> bool" where
  "str_le [] ys = True"
| "str_le (x # xs) [] = False"
| "str_le (x # xs) (y # ys) = (if x = y then str_le xs ys else (of_char x :: nat) < of_char y)"

fun val_le :: "val \<Rightarrow> val \<Rightarrow> bool" where
  "val_le (Num a) (Num b) = (a \<le> b)"
| "val_le (Num a) (Str b) = True"
| "val_le (Num a) (Stamp b) = True"
| "val_le (Str a) (Num b) = False"
| "val_le (Str a) (Str b) = str_le a b"
| "val_le (Str a) (Stamp b) = True"
| "val_le (Stamp a) (Num b) = False"
| "val_le (Stamp a) (Str b) = False"
| "val_le (Stamp a) (Stamp b) = (a \<le> b)"

fun insert_val :: "val \<Rightarrow> val list \<Rightarrow> val list" where
  "insert_val v [] = [v]"
| "insert_val v (w # ws) = (if val_le v w then v # w # ws else w # insert_val v ws)"

definition sort_vals :: "val list \<Rightarrow> val list" where
  "sort_vals vs = foldr insert_val vs []"

text \<open>
  \<^verbatim>\<open>Series.mode()\<close>: the values that occur most often among the cells that are
  present, each once, in ascending order; empty when no cell is present.
\<close>

definition mode :: "val option list \<Rightarrow> val list" where
  "mode xs =
     (let vs = dropna xs;
          most = foldr max (map (count_list vs) vs) 0
      in sort_vals (remdups [v \<leftarrow> vs. count_list vs v = most]))"

text \<open>
  The body of the loop of lines 155 to 162 for one column: a column with a missing cell
  is filled with its mean when its dtype is numeric and with \<^verbatim>\<open>mode()[0]\<close> otherwise,
  which raises when the column has no mode.
\<close>

definition impute :: "column \<Rightarrow> error + column" where
  "impute col =
     (if None \<in> set (cells col)
      then (if is_numeric_dtype col
            then Inr (col\<lparr>cells := map (\<lambda>x. case x of None \<Rightarrow> mean (cells col) | Some v \<Rightarrow> Some v)
                                     (cells col)\<rparr>)
            else (case mode (cells col) of
                    [] \<Rightarrow> Inl KeyError
                  | m # _ \<Rightarrow>
                      Inr (col\<lparr>cells := map (\<lambda>x. case x of None \<Rightarrow> Some m | Some v \<Rightarrow> Some v)
                                           (cells col)\<rparr>)))
      else Inr col)"

fun impute_all :: "dataframe \<Rightarrow> error + dataframe" where
  "impute_all [] = Inr []"
| "impute_all (col # cols) =
     (case impute col of
        Inl e \<Rightarrow> Inl e
      | Inr c \<Rightarrow> (case impute_all cols of Inl e \<Rightarrow> Inl e | Inr cs \<Rightarrow> Inr (c # cs)))"

text \<open>\<^verbatim>\<open>prepare_features(df, category_col, selected_category)\<close>, returning \<open>(X, y)\<close>.\<close>

definition prepare_features :: "dataframe \<Rightarrow> string \<Rightarrow> string \<Rightarrow> error + dataframe \<times> column" where
  "prepare_features df category_col selected_category =
     (case get_column df category_col of
        Inl e \<Rightarrow> Inl e
      | Inr cat \<Rightarrow>
          (let keep = map (\<lambda>x. x = Some (Str selected_category)) (cells cat);
               category_data = map (select_rows keep) df
           in case drop_columns [''date'', category_col] category_data of
                Inl e \<Rightarrow> Inl e
              | Inr unfilled \<Rightarrow>
                  (case impute_all unfilled of
                     Inl e \<Rightarrow> Inl e
                   | Inr feature_data \<Rightarrow>
                       (case drop_columns [''quantity_sold''] feature_data of
                          Inl e \<Rightarrow> Inl e
                        | Inr X \<Rightarrow>
                            (case get_column feature_data ''quantity_sold'' of
                               Inl e \<Rightarrow> Inl e
                             | Inr y \<Rightarrow> Inr (X, y))))))"



section \<open>Forecast generator\<close>

text \<open>
  A trained model is its \<^verbatim>\<open>predict\<close> method: from a feature matrix to one prediction
  per row, or an error. The learner is a parameter of training (\<open>trainer\<close>): it stands
  for \<^verbatim>\<open>evaluate_model\<close> applied to a fresh \<^verbatim>\<open>RandomForestRegressor\<close>, which fits
  and evaluates the model on \<open>(X, y)\<close> and may raise.
\<close>

type_synonym model = "dataframe \<Rightarrow> error + rat list"

type_synonym trainer = "dataframe \<Rightarrow> column \<Rightarrow> error + model"

definition nrows :: "dataframe \<Rightarrow> nat" where
  "nrows df = (case df of [] \<Rightarrow> 0 | c # _ \<Rightarrow> length (cells c))"

fun stamps :: "val option list \<Rightarrow> int list" where
  "stamps [] = []"
| "stamps (Some (Stamp d) # xs) = d # stamps xs"
| "stamps (_ # xs) = stamps xs"

text \<open>
  \<^verbatim>\<open>pd.date_range(start=..., periods=days)\<close>: that many consecutive days from the
  start; \<^verbatim>\<open>ValueError\<close> on a \<^verbatim>\<open>NaT\<close> start or a negative number of periods.
\<close>

definition date_range_periods :: "int option \<Rightarrow> int \<Rightarrow> error + int list" where
  "date_range_periods start periods =
     (case start of
        None \<Rightarrow> Inl ValueError
      | Some a \<Rightarrow> if periods < 0 then Inl ValueError else Inr [a..a + periods - 1])"

definition dtype_of :: "val \<Rightarrow> dtype" where
  "dtype_of v = (case v of Num _ \<Rightarrow> Numeric | Str _ \<Rightarrow> Object | Stamp _ \<Rightarrow> Datetime)"

text \<open>\<^verbatim>\<open>forecast_df[col] = last_val\<close>: one value on every row.\<close>

definition const_column :: "string \<Rightarrow> val \<Rightarrow> nat \<Rightarrow> column" where
  "const_column name v n = \<lparr>cname = name, ctype = dtype_of v, cells = replicate n (Some v)\<rparr>"

text \<open>
  Line 267: \<^verbatim>\<open>data[col].dropna().iloc[-1] if not data[col].dropna().empty else 0\<close>.
\<close>

definition last_value :: "val option list \<Rightarrow> val" where
  "last_value xs = (case dropna xs of [] \<Rightarrow> Num 0 | v # vs \<Rightarrow> last (v # vs))"

text \<open>The loop of lines 265 to 269 over \<^verbatim>\<open>external_factor_cols\<close>; \<open>n\<close> is the number of forecast rows.\<close>

fun add_external_factors :: "dataframe \<Rightarrow> string list \<Rightarrow> nat \<Rightarrow> dataframe \<Rightarrow> error + dataframe" where
  "add_external_factors data [] n forecast_df = Inr forecast_df"
| "add_external_factors data (col # cols) n forecast_df =
     (case get_column data col of
        Inl e \<Rightarrow> Inl e
      | Inr c \<Rightarrow>
          add_external_factors data cols n
            (set_column forecast_df (const_column col (last_value (cells c)) n)))"

text \<open>
  Lines 243 to 269 of \<^verbatim>\<open>generate_forecast\<close>: the future feature rows, before any
  prediction.
\<close>

definition forecast_frame :: "dataframe \<Rightarrow> string \<Rightarrow> int \<Rightarrow> error + dataframe" where
  "forecast_frame data category_col days =
     (case get_column data ''date'' of
        Inl e \<Rightarrow> Inl e
      | Inr dates \<Rightarrow>
          (let last_date = series_max (stamps (cells dates))
           in case date_range_periods (map_option (\<lambda>d. d + 1) last_date) days of
                Inl e \<Rightarrow> Inl e
              | Inr forecast_dates \<Rightarrow>
                  (let forecast_df =
                         add_time_features [date_column ''date'' forecast_dates] forecast_dates;
                       external_factor_cols =
                         [col \<leftarrow> map cname data. col \<notin> set (base_columns category_col)]
                   in add_external_factors data external_factor_cols (length forecast_dates)
                        forecast_df)))"

text \<open>
  The loop of lines 272 to 280 over \<^verbatim>\<open>models.items()\<close>, in insertion order. Assigning
  predictions of the wrong length raises \<^verbatim>\<open>ValueError\<close>.
\<close>

fun predict_all :: "(string \<times> model) list \<Rightarrow> dataframe \<Rightarrow> error + dataframe" where
  "predict_all [] forecast_df = Inr forecast_df"
| "predict_all ((categ, model) # rest) forecast_df =
     (case drop_columns [''date''] forecast_df of
        Inl e \<Rightarrow> Inl e
      | Inr X_forecast \<Rightarrow>
          (case model X_forecast of
             Inl e \<Rightarrow> Inl e
           | Inr y_forecast \<Rightarrow>
               if length y_forecast \<noteq> nrows forecast_df then Inl ValueError
               else predict_all rest
                      (set_column forecast_df
                         \<lparr>cname = categ, ctype = Numeric,
                          cells = map (\<lambda>q. Some (Num q)) y_forecast\<rparr>)))"

definition generate_forecast :: "(string \<times> model) list \<Rightarrow> dataframe \<Rightarrow> string \<Rightarrow> int \<Rightarrow> error + dataframe" where
  "generate_forecast models data category_col days =
     (case forecast_frame data category_col days of
        Inl e \<Rightarrow> Inl e
      | Inr forecast_df \<Rightarrow> predict_all models forecast_df)"

section \<open>Training fan-out\<close>

definition PRODUCT_CATEGORIES :: "string list" where
  "PRODUCT_CATEGORIES = [''accessories'', ''ammunition'', ''handgun'', ''rifle'', ''shotgun'']"

definition model_path :: "string \<Rightarrow> string" where
  "model_path categ = ''sales_forecast_'' @ categ @ ''.pkl''"

text \<open>
  \<^verbatim>\<open>train_model\<close>: the model files written so far are threaded through; the file of a
  category is written (line 234) only after its model has been fitted and evaluated.
\<close>

definition train_model ::
    "trainer \<Rightarrow> string \<Rightarrow> dataframe \<Rightarrow> string \<Rightarrow> string list \<Rightarrow> (error + model) \<times> string list" where
  "train_model fit categ data category_col files =
     (case prepare_features data category_col categ of
        Inl e \<Rightarrow> (Inl e, files)
      | Inr (X, y) \<Rightarrow>
          (case fit X y of
             Inl e \<Rightarrow> (Inl e, files)
           | Inr model \<Rightarrow> (Inr model, files @ [model_path categ])))"

text \<open>\<^verbatim>\<open>models[category] = ...\<close> on a dictionary kept in insertion order.\<close>

definition dict_set :: "(string \<times> 'v) list \<Rightarrow> string \<Rightarrow> 'v \<Rightarrow> (string \<times> 'v) list" where
  "dict_set d k v =
     (if k \<in> set (map fst d) then map (\<lambda>(k', v'). if k' = k then (k, v) else (k', v')) d
      else d @ [(k, v)])"

text \<open>
  What a run leaves: the forecast or the exception that ended the run, the models
  trained, and the model files written.
\<close>

record run =
  outcome :: "error + dataframe"
  trained :: "(string \<times> model) list"
  written :: "string list"

text \<open>The loop of lines 302 to 305 of \<^verbatim>\<open>main\<close>.\<close>

fun train_loop ::
    "trainer \<Rightarrow> dataframe \<Rightarrow> string \<Rightarrow> string list \<Rightarrow> (string \<times> model) list \<Rightarrow> string list \<Rightarrow>
     (error option) \<times> (string \<times> model) list \<times> string list" where
  "train_loop fit data category_col [] ms fs = (None, ms, fs)"
| "train_loop fit data category_col (categ # rest) ms fs =
     (case train_model fit categ data category_col fs of
        (Inl e, fs') \<Rightarrow> (Some e, ms, fs')
      | (Inr model, fs') \<Rightarrow> train_loop fit data category_col rest (dict_set ms categ model) fs')"

text \<open>
  \<^verbatim>\<open>main\<close>, from the aggregated sales and the external-factor frame that
  \<^verbatim>\<open>load_and_prepare_data\<close> builds on; the forecast horizon is the default of 90 days.
\<close>

definition main :: "trainer \<Rightarrow> sales_record list \<Rightarrow> string \<Rightarrow> dataframe \<Rightarrow> string \<Rightarrow> run" where
  "main fit daily_sales category_col external_factors external_factors_date_col =
     (case load_and_prepare_data daily_sales category_col external_factors external_factors_date_col of
        Inl e \<Rightarrow> \<lparr>outcome = Inl e, trained = [], written = []\<rparr>
      | Inr data \<Rightarrow>
          (case train_loop fit data category_col PRODUCT_CATEGORIES [] [] of
             (Some e, ms, fs) \<Rightarrow> \<lparr>outcome = Inl e, trained = ms, written = fs\<rparr>
           | (None, ms, fs) \<Rightarrow>
               \<lparr>outcome = generate_forecast ms data category_col 90, trained = ms,
                 written = fs\<rparr>))"

text \<open>
  A learner to run the pipeline on examples. Like the scikit-learn calls of
  \<^verbatim>\<open>evaluate_model\<close> (an 80/20 split and a 5-fold cross-validation) it raises
  \<^verbatim>\<open>ValueError\<close> on fewer than five samples, and like a fitted scikit-learn estimator
  its model refuses a matrix whose feature names are not those it was fitted on. What it
  predicts, the mean of the training target, plays no part in any property below.
\<close>

definition fitted_model :: "string list \<Rightarrow> rat \<Rightarrow> model" where
  "fitted_model feature_names prediction X =
     (if map cname X = feature_names then Inr (replicate (nrows X) prediction)
      else Inl ValueError)"

definition mean_learner :: trainer where
  "mean_learner X y =
     (if length (cells y) < 5 then Inl ValueError
      else Inr (fitted_model (map cname X)
                  (case mean (cells y) of Some (Num q) \<Rightarrow> q | _ \<Rightarrow> 0)))"

text \<open>
  The feature table that \<^verbatim>\<open>load_and_prepare_data\<close> builds on scenario B. The
  external-factor date column is named \<^verbatim>\<open>date\<close> like the sales frame's own, so the
  merge keeps one date column.
\<close>

definition scenario_data :: dataframe where
  "scenario_data =
     [date_column ''date'' [19723, 19723, 19724, 19724],
      \<lparr>cname = ''category'', ctype = Object,
        cells = map (\<lambda>s. Some (Str s)) [''rifle'', ''ammunition'', ''rifle'', ''ammunition'']\<rparr>,
      \<lparr>cname = ''quantity_sold'', ctype = Numeric,
        cells = map (\<lambda>q. Some (Num q)) [2, 0, 0, 5]\<rparr>,
      int_column ''dayofweek'' [0, 0, 1, 1],
      int_column ''month'' [1, 1, 1, 1],
      int_column ''day'' [1, 1, 2, 2],
      int_column ''year'' [2024, 2024, 2024, 2024],
      int_column ''quarter'' [1, 1, 1, 1],
      int_column ''is_weekend'' [0, 0, 0, 0],
      \<lparr>cname = ''political_climate'', ctype = Numeric,
        cells = map (\<lambda>q. Some (Num q)) [3, 3, 3, 3]\<rparr>]"

text \<open>
  The feature names of scenario B's training matrices: the columns of the feature table
  without the date, the category and the quantity.
\<close>

definition scenario_schema :: "string list" where
  "scenario_schema =
     [''dayofweek'', ''month'', ''day'', ''year'', ''quarter'', ''is_weekend'',
      ''political_climate'']"



text \<open>
  Five days of sales in six categories: the five configured ones and \<^verbatim>\<open>optics\<close>.
\<close>

definition wide_sales :: "sales_record list" where
  "wide_sales =
     concat (map (\<lambda>d. map (\<lambda>c. \<lparr>date = d, category = c, quantity_sold = 1\<rparr>)
                          (PRODUCT_CATEGORIES @ [''optics'']))
                 [19723, 19724, 19725, 19726, 19727])"

section \<open>Properties of the schema resolver\<close>

lemma filter_first_index:
  assumes "filter P xs = m # ms"
  shows "\<exists>k<length xs. m = xs ! k \<and> P (xs ! k) \<and> (\<forall>i<k. \<not> P (xs ! i))"
proof -
  from assms obtain us vs where xs: "xs = us @ m # vs" and no: "\<forall>u\<in>set us. \<not> P u" and pm: "P m"
    by (auto simp: filter_eq_Cons_iff)
  have "length us < length xs" using xs by simp
  moreover have "xs ! length us = m" using xs by simp
  moreover have "\<forall>i<length us. \<not> P (xs ! i)"
    using no xs by (simp add: nth_append)
  ultimately show ?thesis using pm by blast
qed

lemma matching_cols_empty_iff:
  "matching_cols cols p = [] \<longleftrightarrow> (\<forall>c\<in>set cols. \<not> pattern_in p c)"
  by (simp add: matching_cols_def filter_empty_conv)

lemma find_column_no_match:
  assumes "\<forall>p\<in>set patterns. matching_cols cols p = []"
  shows "find_column_by_pattern cols patterns = (case cols of [] \<Rightarrow> Inl IndexError | c # _ \<Rightarrow> Inr c)"
  using assms by (induction patterns) simp_all

lemma find_column_first_match:
  assumes "i < length patterns"
    and "\<forall>j<i. matching_cols cols (patterns ! j) = []"
    and "matching_cols cols (patterns ! i) = m # ms"
  shows "find_column_by_pattern cols patterns = Inr m"
  using assms
proof (induction patterns arbitrary: i)
  case Nil
  then show ?case by simp
next
  case (Cons p ps)
  show ?case
  proof (cases i)
    case 0
    with Cons.prems show ?thesis by simp
  next
    case (Suc n)
    from Cons.prems(2) Suc have p: "matching_cols cols p = []" by auto
    have "n < length ps" using Cons.prems(1) Suc by simp
    moreover have "\<forall>j<n. matching_cols cols (ps ! j) = []"
      using Cons.prems(2) Suc by auto
    moreover have "matching_cols cols (ps ! n) = m # ms" using Cons.prems(3) Suc by simp
    ultimately have "find_column_by_pattern cols ps = Inr m" by (rule Cons.IH)
    with p show ?thesis by simp
  qed
qed

lemma first_matching_pattern:
  assumes "\<not> (\<forall>p\<in>set patterns. matching_cols cols p = [])"
  shows "\<exists>i<length patterns. (\<forall>j<i. matching_cols cols (patterns ! j) = []) \<and>
           matching_cols cols (patterns ! i) \<noteq> []"
proof -
  let ?Q = "\<lambda>i. i < length patterns \<and> matching_cols cols (patterns ! i) \<noteq> []"
  from assms obtain i0 where "?Q i0" by (auto simp: in_set_conv_nth)
  define i where "i = (LEAST i. ?Q i)"
  have qi: "?Q i" unfolding i_def using \<open>?Q i0\<close> by (rule LeastI)
  have "\<forall>j<i. matching_cols cols (patterns ! j) = []"
  proof (intro allI impI)
    fix j assume "j < i"
    then have "\<not> ?Q j" unfolding i_def by (rule not_less_Least)
    moreover have "j < length patterns" using \<open>j < i\<close> qi by simp
    ultimately show "matching_cols cols (patterns ! j) = []" by simp
  qed
  with qi show ?thesis by blast
qed

text \<open>
  C5 (as amended). On a table with at least one column, \<open>find_column_by_pattern\<close>
  returns a name among the table's columns. When no pattern is a case-insensitive
  substring of any column name, the name is the first column; otherwise it is, for the
  first pattern in list order that matches some column, the first column in the table's
  column order that the pattern matches.
\<close>

theorem find_column_by_pattern_resolves:
  assumes "cols \<noteq> []"
  shows "\<exists>c. find_column_by_pattern cols patterns = Inr c \<and> c \<in> set cols \<and>
           (if \<forall>p\<in>set patterns. \<forall>col\<in>set cols. \<not> pattern_in p col
            then c = cols ! 0
            else \<exists>i<length patterns.
                   (\<forall>j<i. \<forall>col\<in>set cols. \<not> pattern_in (patterns ! j) col) \<and>
                   (\<exists>k<length cols. c = cols ! k \<and> pattern_in (patterns ! i) (cols ! k) \<and>
                      (\<forall>n<k. \<not> pattern_in (patterns ! i) (cols ! n))))"
proof (cases "\<forall>p\<in>set patterns. matching_cols cols p = []")
  case True
  from assms obtain c cs where cols: "cols = c # cs" by (cases cols) auto
  have "find_column_by_pattern cols patterns = Inr c"
    using find_column_no_match [OF True] cols by simp
  moreover have "\<forall>p\<in>set patterns. \<forall>col\<in>set cols. \<not> pattern_in p col"
    using True by (simp add: matching_cols_empty_iff)
  ultimately show ?thesis using cols by simp
next
  case False
  from first_matching_pattern [OF False] obtain i where
    i: "i < length patterns" and
    before: "\<forall>j<i. matching_cols cols (patterns ! j) = []" and
    hit: "matching_cols cols (patterns ! i) \<noteq> []"
    by blast
  from hit obtain m ms where mm: "matching_cols cols (patterns ! i) = m # ms"
    by (cases "matching_cols cols (patterns ! i)") auto
  have res: "find_column_by_pattern cols patterns = Inr m"
    using i before mm by (rule find_column_first_match)
  from mm obtain k where k: "k < length cols" "m = cols ! k" "pattern_in (patterns ! i) (cols ! k)"
    "\<forall>n<k. \<not> pattern_in (patterns ! i) (cols ! n)"
    unfolding matching_cols_def using filter_first_index [of "pattern_in (patterns ! i)" cols m ms]
    by blast
  have some: "\<not> (\<forall>p\<in>set patterns. \<forall>col\<in>set cols. \<not> pattern_in p col)"
    using False by (simp add: matching_cols_empty_iff)
  have b': "\<forall>j<i. \<forall>col\<in>set cols. \<not> pattern_in (patterns ! j) col"
    using before by (simp add: matching_cols_empty_iff)
  have "m \<in> set cols" using k by simp
  with res some b' i k show ?thesis by auto
qed

text \<open>
  The amended C5 at the table of the repository's own test
  \<^verbatim>\<open>test_find_column_by_pattern_match\<close>, whose columns are not empty.
\<close>

theorem find_column_by_pattern_resolves_witness:
  "[''customer_id'', ''transaction_date'', ''product_category''] \<noteq> [] \<and>
   find_column_by_pattern [''customer_id'', ''transaction_date'', ''product_category'']
     [''date'', ''time''] = Inr ''transaction_date'' \<and>
   (\<exists>c. find_column_by_pattern [''customer_id'', ''transaction_date'', ''product_category'']
          [''date'', ''time''] = Inr c \<and>
        c \<in> set [''customer_id'', ''transaction_date'', ''product_category''])"
proof -
  have ne: "[''customer_id'', ''transaction_date'', ''product_category''] \<noteq> []" by simp
  have ev: "find_column_by_pattern [''customer_id'', ''transaction_date'', ''product_category'']
     [''date'', ''time''] = Inr ''transaction_date''"
    by code_simp
  from find_column_by_pattern_resolves [OF ne, of "[''date'', ''time'']"]
  obtain c where "find_column_by_pattern [''customer_id'', ''transaction_date'', ''product_category'']
          [''date'', ''time''] = Inr c"
    and "c \<in> set [''customer_id'', ''transaction_date'', ''product_category'']"
    by blast
  with ne ev show ?thesis by blast
qed

text \<open>
  C5 as stated fails on a table without columns: no pattern can match, and the fallback
  \<^verbatim>\<open>df.columns[0]\<close> raises instead of returning a column name.
\<close>

theorem find_column_by_pattern_no_columns:
  "find_column_by_pattern [] [''date'', ''time''] = Inl IndexError"
  by (simp add: matching_cols_def)

section \<open>Properties of forward fill\<close>

lemma ffill_from_idem: "ffill_from p (ffill_from p xs) = ffill_from p xs"
proof (induction p xs rule: ffill_from.induct)
  case (1 prev)
  show ?case by simp
next
  case (2 prev xs)
  then show ?case by (cases prev) simp_all
next
  case (3 prev v xs)
  then show ?case by simp
qed

text \<open>
  C8. Forward fill is idempotent: filling a column that has already been forward-filled
  leaves it unchanged.
\<close>

theorem ffill_idempotent: "ffill (ffill xs) = ffill xs"
  by (simp add: ffill_def ffill_from_idem)

section \<open>Properties of the calendar completer\<close>

lemma foldl_min_Min: "foldl min d ds = Min (insert d (set ds))"
proof (induction ds arbitrary: d)
  case Nil
  show ?case by simp
next
  case (Cons x xs)
  have "Min (insert (min d x) (set xs)) = Min (insert d (insert x (set xs)))"
    by (cases "set xs = {}") (simp_all add: min.assoc)
  then show ?case using Cons.IH [of "min d x"] by simp
qed

lemma foldl_max_Max: "foldl max d ds = Max (insert d (set ds))"
proof (induction ds arbitrary: d)
  case Nil
  show ?case by simp
next
  case (Cons x xs)
  have "Max (insert (max d x) (set xs)) = Max (insert d (insert x (set xs)))"
    by (cases "set xs = {}") (simp_all add: max.assoc)
  then show ?case using Cons.IH [of "max d x"] by simp
qed

lemma series_min_Min: "ds \<noteq> [] \<Longrightarrow> series_min ds = Some (Min (set ds))"
  by (cases ds) (simp_all add: series_min_def foldl_min_Min)

lemma series_max_Max: "ds \<noteq> [] \<Longrightarrow> series_max ds = Some (Max (set ds))"
  by (cases ds) (simp_all add: series_max_def foldl_max_Max)

lemma unique_set: "set (unique xs) = set xs"
  by (simp add: unique_def)

lemma unique_distinct: "distinct (unique xs)"
  by (simp add: unique_def)

lemma unique_length: "length (unique xs) = card (set xs)"
  using distinct_card [OF unique_distinct, of xs] by (simp add: unique_set)

lemma distinct_key_filter:
  assumes "distinct (map (\<lambda>r. (date r, category r)) S)"
  shows "length [r \<leftarrow> S. date r = d \<and> category r = c] \<le> 1"
proof -
  have "[r \<leftarrow> S. date r = d \<and> category r = c] = [r \<leftarrow> S. (date r, category r) = (d, c)]"
    by simp
  moreover have "length [r \<leftarrow> S. (\<lambda>r. (date r, category r)) r = (d, c)] \<le> 1"
    using assms
  proof (induction S)
    case Nil
    show ?case by simp
  next
    case (Cons a S)
    then show ?case by (auto simp: filter_empty_conv image_iff)
  qed
  ultimately show ?thesis by simp
qed

lemma merge_sales_distinct:
  assumes "distinct (map (\<lambda>r. (date r, category r)) S)"
  shows "map (\<lambda>(d, c, q). \<lparr>date = d, category = c, quantity_sold = fillna 0 q\<rparr>) (merge_sales dc S)
         = map (grid_cell S) dc"
proof (induction dc)
  case Nil
  show ?case by (simp add: merge_sales_def)
next
  case (Cons p dc)
  obtain d c where p: "p = (d, c)" by (cases p)
  have le: "length [r \<leftarrow> S. date r = d \<and> category r = c] \<le> 1"
    using assms by (rule distinct_key_filter)
  have hd: "map (\<lambda>(d, c, q). \<lparr>date = d, category = c, quantity_sold = fillna 0 q\<rparr>)
     (case [r \<leftarrow> S. date r = d \<and> category r = c] of
         [] \<Rightarrow> [(d, c, None)]
       | ms \<Rightarrow> map (\<lambda>r. (d, c, Some (quantity_sold r))) ms) = [grid_cell S (d, c)]"
  proof (cases "[r \<leftarrow> S. date r = d \<and> category r = c]")
    case Nil
    then show ?thesis by (simp add: grid_cell_def fillna_def)
  next
    case (Cons r rs)
    with le have "rs = []" by simp
    with Cons show ?thesis by (simp add: grid_cell_def fillna_def)
  qed
  have "merge_sales (p # dc) S = (case [r \<leftarrow> S. date r = d \<and> category r = c] of
         [] \<Rightarrow> [(d, c, None)]
       | ms \<Rightarrow> map (\<lambda>r. (d, c, Some (quantity_sold r))) ms) @ merge_sales dc S"
    by (simp add: merge_sales_def p)
  then show ?case using hd Cons.IH by (simp add: p)
qed

lemma complete_distinct:
  assumes "S \<noteq> []" and "distinct (map (\<lambda>r. (date r, category r)) S)"
  shows "complete S = Inr (map (grid_cell S)
           (List.product [Min (date ` set S) .. Max (date ` set S)] (unique (map category S))))"
proof -
  have ne: "map date S \<noteq> []" using assms(1) by simp
  show ?thesis
    unfolding complete_def Let_def
    by (simp add: series_min_Min [OF ne] series_max_Max [OF ne] date_range_def
        merge_sales_distinct [OF assms(2)])
qed

lemma filter_eq_distinct:
  assumes "distinct xs" and "k \<in> set xs"
  shows "[x \<leftarrow> xs. x = k] = [k]"
  using assms by (induction xs) (auto simp: filter_empty_conv)

lemma grid_cell_key: "(date (grid_cell S p), category (grid_cell S p)) = p"
  by (cases p) (simp add: grid_cell_def)

lemma grid_filter_key:
  assumes "distinct dc" and "(d, c) \<in> set dc"
  shows "[x \<leftarrow> map (grid_cell S) dc. date x = d \<and> category x = c] = [grid_cell S (d, c)]"
proof -
  have "[x \<leftarrow> map (grid_cell S) dc. date x = d \<and> category x = c]
        = map (grid_cell S) [p \<leftarrow> dc. p = (d, c)]"
    by (induction dc) (auto simp: grid_cell_def)
  then show ?thesis using filter_eq_distinct [OF assms] by simp
qed

lemma grid_cell_of_record:
  assumes "distinct (map (\<lambda>r. (date r, category r)) S)" and "r \<in> set S"
  shows "grid_cell S (date r, category r) = r"
proof -
  have le: "length [x \<leftarrow> S. date x = date r \<and> category x = category r] \<le> 1"
    using assms(1) by (rule distinct_key_filter)
  have "r \<in> set [x \<leftarrow> S. date x = date r \<and> category x = category r]"
    using assms(2) by simp
  then obtain y ys where f: "[x \<leftarrow> S. date x = date r \<and> category x = category r] = y # ys"
    by (cases "[x \<leftarrow> S. date x = date r \<and> category x = category r]") auto
  with le have "ys = []" by simp
  with f \<open>r \<in> set [x \<leftarrow> S. date x = date r \<and> category x = category r]\<close> have "y = r" by simp
  with f show ?thesis by (simp add: grid_cell_def)
qed

text \<open>
  C3. For every non-empty set of sales records with at most one record per
  (date, category) pair, the completed grid has exactly (number of days from the least to
  the greatest date, inclusive) times (number of distinct categories) rows; every
  (date, category) pair of the records appears in exactly one grid row, which carries the
  record's quantity; and every grid row without a matching record has quantity zero.
\<close>

theorem complete_dense_grid:
  assumes "S \<noteq> []" and "distinct (map (\<lambda>r. (date r, category r)) S)"
  shows "\<exists>g. complete S = Inr g \<and>
           length g = card {Min (date ` set S) .. Max (date ` set S)} * card (category ` set S) \<and>
           (\<forall>r\<in>set S. [x \<leftarrow> g. date x = date r \<and> category x = category r] = [r]) \<and>
           (\<forall>x\<in>set g. (\<forall>r\<in>set S. (date r, category r) \<noteq> (date x, category x)) \<longrightarrow> quantity_sold x = 0)"
proof -
  let ?lo = "Min (date ` set S)" and ?hi = "Max (date ` set S)"
  let ?dc = "List.product [?lo..?hi] (unique (map category S))"
  let ?g = "map (grid_cell S) ?dc"
  have c: "complete S = Inr ?g" using assms by (rule complete_distinct)
  have len: "length ?g = card {?lo..?hi} * card (category ` set S)"
    by (simp add: unique_length)
  have dist: "distinct ?dc" by (simp add: distinct_product unique_distinct)
  have one: "\<forall>r\<in>set S. [x \<leftarrow> ?g. date x = date r \<and> category x = category r] = [r]"
  proof
    fix r assume r: "r \<in> set S"
    have "?lo \<le> date r" "date r \<le> ?hi" using r by simp_all
    then have "(date r, category r) \<in> set ?dc" using r by (simp add: unique_set)
    from grid_filter_key [OF dist this] grid_cell_of_record [OF assms(2) r]
    show "[x \<leftarrow> ?g. date x = date r \<and> category x = category r] = [r]" by simp
  qed
  have zero: "\<forall>x\<in>set ?g. (\<forall>r\<in>set S. (date r, category r) \<noteq> (date x, category x)) \<longrightarrow> quantity_sold x = 0"
  proof (intro ballI impI)
    fix x assume x: "x \<in> set ?g" and no: "\<forall>r\<in>set S. (date r, category r) \<noteq> (date x, category x)"
    from x obtain d c where xd: "x = grid_cell S (d, c)" by auto
    have "[r \<leftarrow> S. date r = d \<and> category r = c] = []"
      using no xd by (auto simp: filter_empty_conv grid_cell_def)
    then show "quantity_sold x = 0" using xd by (simp add: grid_cell_def)
  qed
  from c len one zero show ?thesis by blast
qed

text \<open>
  C3 on two records two days apart: three days by two categories.
\<close>

theorem complete_dense_grid_witness:
  "[\<lparr>date = 19723, category = ''rifle'', quantity_sold = 2\<rparr>,
    \<lparr>date = 19725, category = ''ammunition'', quantity_sold = 5\<rparr>] \<noteq> [] \<and>
   distinct (map (\<lambda>r. (date r, category r))
     [\<lparr>date = 19723, category = ''rifle'', quantity_sold = 2\<rparr>,
      \<lparr>date = 19725, category = ''ammunition'', quantity_sold = 5\<rparr>]) \<and>
   (\<exists>g. complete [\<lparr>date = 19723, category = ''rifle'', quantity_sold = 2\<rparr>,
                 \<lparr>date = 19725, category = ''ammunition'', quantity_sold = 5\<rparr>] = Inr g \<and>
        length g = 6)"
proof -
  let ?S = "[\<lparr>date = 19723, category = ''rifle'', quantity_sold = 2\<rparr>,
             \<lparr>date = 19725, category = ''ammunition'', quantity_sold = 5\<rparr>]"
  have ne: "?S \<noteq> []" by simp
  have di: "distinct (map (\<lambda>r. (date r, category r)) ?S)" by simp
  have card: "card {Min (date ` set ?S) .. Max (date ` set ?S)} * card (category ` set ?S) = 6"
    by simp
  from complete_dense_grid [OF ne di] obtain g where
    "complete ?S = Inr g"
    "length g = card {Min (date ` set ?S) .. Max (date ` set ?S)} * card (category ` set ?S)"
    by blast
  with card have "\<exists>g. complete ?S = Inr g \<and> length g = 6" by simp
  with ne di show ?thesis by blast
qed

text \<open>
  C1 (as amended). On an empty sales table the grid construction does not return: the
  least and greatest dates are \<^verbatim>\<open>NaT\<close> and the date range raises the library's
  \<^verbatim>\<open>ValueError\<close>, which ends \<^verbatim>\<open>load_and_prepare_data\<close>. No zero-row grid is
  produced.
\<close>

theorem complete_empty_raises:
  "complete [] = Inl ValueError \<and>
   load_and_prepare_data [] category_col external_factors external_factors_date_col = Inl ValueError"
  by (simp add: load_and_prepare_data_def complete_def series_min_def series_max_def date_range_def)

text \<open>
  C1 as stated names an explicit empty-input error. The source has no check for an empty
  table and no such error class: what is raised is the date range's own error.
\<close>

theorem complete_empty_not_explicit: "complete [] \<noteq> Inl EmptyInputError"
  by (simp add: complete_def series_min_def series_max_def date_range_def)

section \<open>Properties of the feature builder\<close>

lemma length_ffill_from [simp]: "length (ffill_from p xs) = length xs"
  by (induction p xs rule: ffill_from.induct) simp_all















lemma set_column_fresh: "cname c \<notin> set (map cname df) \<Longrightarrow> set_column df c = df @ [c]"
  by (simp add: set_column_def)

lemma complete_sales_frame:
  assumes "category_col \<notin> set [''date'', ''quantity_sold'', ''dayofweek'', ''month'', ''day'', ''year'', ''quarter'', ''is_weekend'']"
  shows "add_time_features (sales_frame category_col grid) ds =
     [date_column ''date'' (map date grid),
      \<lparr>cname = category_col, ctype = Object, cells = map (\<lambda>r. Some (Str (category r))) grid\<rparr>,
      \<lparr>cname = ''quantity_sold'', ctype = Numeric, cells = map (\<lambda>r. Some (Num (quantity_sold r))) grid\<rparr>,
      int_column ''dayofweek'' (map dt_dayofweek ds),
      int_column ''month'' (map dt_month ds),
      int_column ''day'' (map dt_day ds),
      int_column ''year'' (map dt_year ds),
      int_column ''quarter'' (map dt_quarter ds),
      int_column ''is_weekend'' (map is_weekend ds)]"
proof -
  from assms have cc: "''dayofweek'' \<noteq> category_col" "''month'' \<noteq> category_col"
    "''day'' \<noteq> category_col" "''year'' \<noteq> category_col" "''quarter'' \<noteq> category_col"
    "''is_weekend'' \<noteq> category_col"
    by auto
  show ?thesis
    unfolding add_time_features_def sales_frame_def foldl.simps
    by (simp add: set_column_fresh int_column_def date_column_def cc)
qed







section \<open>Properties of feature preparation\<close>
























section \<open>Properties of the forecast generator\<close>













lemma scenario_grid:
  "complete scenario_sales =
      Inr [\<lparr>date = 19723, category = ''rifle'', quantity_sold = 2\<rparr>,
           \<lparr>date = 19723, category = ''ammunition'', quantity_sold = 0\<rparr>,
           \<lparr>date = 19724, category = ''rifle'', quantity_sold = 0\<rparr>,
           \<lparr>date = 19724, category = ''ammunition'', quantity_sold = 5\<rparr>]"
  by (simp add: scenario_sales_def complete_def series_min_def series_max_def date_range_def
       unique_def merge_sales_def fillna_def upto.simps)

lemma calendar_values:
  "dt_dayofweek 19723 = 0" "dt_dayofweek 19724 = 1"
  "dt_month 19723 = 1" "dt_month 19724 = 1"
  "dt_day 19723 = 1" "dt_day 19724 = 2"
  "dt_year 19723 = 2024" "dt_year 19724 = 2024"
  "dt_quarter 19723 = 1" "dt_quarter 19724 = 1"
  "is_weekend 19723 = 0" "is_weekend 19724 = 0"
  by code_simp+

lemma scenario_merge:
  "merge_index [Some (Stamp 19723), Some (Stamp 19723), Some (Stamp 19724), Some (Stamp 19724)]
     [Some (Stamp 19723)]
     = [(0, Some 0), (1, Some 0), (2, None), (3, None)]"
  by (simp add: merge_index_def)

lemma scenario_data_built:
  "load_and_prepare_data scenario_sales ''category'' scenario_factors ''date'' = Inr scenario_data"
proof -
  have cc: "''category'' \<notin> set [''date'', ''quantity_sold'', ''dayofweek'', ''month'', ''day'',
                                 ''year'', ''quarter'', ''is_weekend'']" by simp
  show ?thesis
    unfolding load_and_prepare_data_def scenario_grid sum.case Let_def complete_sales_frame [OF cc]
    by (simp add: merge_left_def get_column_def date_column_def int_column_def scenario_factors_def
        scenario_merge take_left_def take_right_def add_suffix_def ffill_def calendar_values
        scenario_data_def Let_def)
qed


section \<open>Prediction inputs and unknown factors in the forecast generator\<close>

text \<open>
  C2 fails on the code. On the feature table of scenario B, both categories are trained
  on the schema \<open>scenario_schema\<close>. With one model the forecast is produced. With two
  models fitted on that schema the second prediction raises: the loop takes
  \<^verbatim>\<open>X_forecast\<close> from the frame to which the first category's predictions have been
  added, so the second model is given eight columns, the first only seven. The fifth
  equation shows the column counts with models that return the number of columns
  they are given, and the last one that a whole run of \<^verbatim>\<open>main\<close> on five days of sales
  in every configured category ends in this exception after the models are trained.
\<close>

theorem generate_forecast_feeds_predictions_back:
  "(case prepare_features scenario_data ''category'' ''ammunition'' of
      Inl e \<Rightarrow> [] | Inr (X, y) \<Rightarrow> map cname X) = scenario_schema \<and>
   (case prepare_features scenario_data ''category'' ''rifle'' of
      Inl e \<Rightarrow> [] | Inr (X, y) \<Rightarrow> map cname X) = scenario_schema \<and>
   generate_forecast [(''ammunition'', fitted_model scenario_schema 1)]
       scenario_data ''category'' 2 =
     Inr [date_column ''date'' [19725, 19726],
          int_column ''dayofweek'' [2, 3],
          int_column ''month'' [1, 1],
          int_column ''day'' [3, 4],
          int_column ''year'' [2024, 2024],
          int_column ''quarter'' [1, 1],
          int_column ''is_weekend'' [0, 0],
          const_column ''political_climate'' (Num 3) 2,
          \<lparr>cname = ''ammunition'', ctype = Numeric, cells = [Some (Num 1), Some (Num 1)]\<rparr>] \<and>
   generate_forecast [(''ammunition'', fitted_model scenario_schema 1),
                      (''rifle'', fitted_model scenario_schema 1)]
       scenario_data ''category'' 2 = Inl ValueError \<and>
   generate_forecast [(''ammunition'', \<lambda>X. Inr (replicate (nrows X) (of_nat (length X)))),
                      (''rifle'', \<lambda>X. Inr (replicate (nrows X) (of_nat (length X))))]
       scenario_data ''category'' 2 =
     Inr [date_column ''date'' [19725, 19726],
          int_column ''dayofweek'' [2, 3],
          int_column ''month'' [1, 1],
          int_column ''day'' [3, 4],
          int_column ''year'' [2024, 2024],
          int_column ''quarter'' [1, 1],
          int_column ''is_weekend'' [0, 0],
          const_column ''political_climate'' (Num 3) 2,
          \<lparr>cname = ''ammunition'', ctype = Numeric, cells = [Some (Num 7), Some (Num 7)]\<rparr>,
          \<lparr>cname = ''rifle'', ctype = Numeric, cells = [Some (Num 8), Some (Num 8)]\<rparr>] \<and>
   outcome (main mean_learner wide_sales ''category'' scenario_factors ''date'') = Inl ValueError"
  by code_simp









section \<open>Properties of the training fan-out\<close>

lemma dict_set_fresh: "k \<notin> set (map fst d) \<Longrightarrow> dict_set d k v = d @ [(k, v)]"
  by (simp add: dict_set_def)

lemma train_model_files:
  "train_model fit categ data category_col fs = (r, fs') \<Longrightarrow>
   (case r of Inl e \<Rightarrow> fs' = fs | Inr m \<Rightarrow> fs' = fs @ [model_path categ])"
  by (auto simp: train_model_def split: sum.splits prod.splits)

lemma train_loop_prefix:
  assumes "distinct cats" and "set cats \<inter> set (map fst ms) = {}"
  shows "\<exists>n e ms' fs'. n \<le> length cats \<and>
           train_loop fit data category_col cats ms fs = (e, ms', fs') \<and>
           map fst ms' = map fst ms @ take n cats \<and>
           fs' = fs @ map model_path (take n cats) \<and>
           (e = None) = (n = length cats)"
  using assms
proof (induction cats arbitrary: ms fs)
  case Nil
  show ?case by simp
next
  case (Cons c cats)
  obtain r fs1 where tm: "train_model fit c data category_col fs = (r, fs1)"
    by (cases "train_model fit c data category_col fs")
  show ?case
  proof (cases r)
    case (Inl e)
    with tm train_model_files [OF tm] have "fs1 = fs" by simp
    with tm Inl have "train_loop fit data category_col (c # cats) ms fs = (Some e, ms, fs)"
      by simp
    then show ?thesis by (intro exI [of _ 0]) simp
  next
    case (Inr m)
    with train_model_files [OF tm] have fs1: "fs1 = fs @ [model_path c]" by simp
    have fresh: "c \<notin> set (map fst ms)" using Cons.prems(2) by auto
    have ds: "dict_set ms c m = ms @ [(c, m)]" using fresh by (rule dict_set_fresh)
    have step: "train_loop fit data category_col (c # cats) ms fs =
                train_loop fit data category_col cats (ms @ [(c, m)]) (fs @ [model_path c])"
      using tm Inr fs1 ds by simp
    have d: "distinct cats" using Cons.prems(1) by simp
    have dis: "set cats \<inter> set (map fst (ms @ [(c, m)])) = {}"
      using Cons.prems by auto
    from Cons.IH [OF d dis, of "fs @ [model_path c]"] obtain n e ms' fs' where
      n: "n \<le> length cats" and
      run: "train_loop fit data category_col cats (ms @ [(c, m)]) (fs @ [model_path c]) = (e, ms', fs')" and
      keys: "map fst ms' = map fst (ms @ [(c, m)]) @ take n cats" and
      files: "fs' = (fs @ [model_path c]) @ map model_path (take n cats)" and
      fin: "(e = None) = (n = length cats)"
      by blast
    show ?thesis
      using n run keys files fin step
      by (intro exI [of _ "Suc n"] exI [of _ e] exI [of _ ms'] exI [of _ fs']) simp
  qed
qed

lemma distinct_PRODUCT_CATEGORIES: "distinct PRODUCT_CATEGORIES"
  by (simp add: PRODUCT_CATEGORIES_def)

text \<open>
  C10 (as amended). Whatever the input data and the learner, the categories for which
  \<^verbatim>\<open>main\<close> trains a model and writes a model file are an initial segment of the
  configured list \<^verbatim>\<open>PRODUCT_CATEGORIES\<close>, in its order: all of it unless the run
  ended with an exception. The categories observed in the sales data are not consulted.
\<close>

theorem main_trains_configured_categories:
  "\<exists>n. n \<le> length PRODUCT_CATEGORIES \<and>
       map fst (trained (main fit daily_sales category_col external_factors external_factors_date_col))
         = take n PRODUCT_CATEGORIES \<and>
       written (main fit daily_sales category_col external_factors external_factors_date_col)
         = map model_path (take n PRODUCT_CATEGORIES) \<and>
       (\<exists>e. outcome (main fit daily_sales category_col external_factors external_factors_date_col) = Inl e
          \<or> n = length PRODUCT_CATEGORIES)"
proof (cases "load_and_prepare_data daily_sales category_col external_factors external_factors_date_col")
  case (Inl e)
  then have "main fit daily_sales category_col external_factors external_factors_date_col
             = \<lparr>outcome = Inl e, trained = [], written = []\<rparr>"
    by (simp add: main_def)
  then show ?thesis by (intro exI [of _ 0]) simp
next
  case (Inr data)
  from train_loop_prefix [OF distinct_PRODUCT_CATEGORIES, of "[]" fit data category_col "[]"]
  obtain n e ms fs where
    n: "n \<le> length PRODUCT_CATEGORIES" and
    run: "train_loop fit data category_col PRODUCT_CATEGORIES [] [] = (e, ms, fs)" and
    keys: "map fst ms = take n PRODUCT_CATEGORIES" and
    files: "fs = map model_path (take n PRODUCT_CATEGORIES)" and
    fin: "(e = None) = (n = length PRODUCT_CATEGORIES)"
    by auto
  show ?thesis
  proof (cases e)
    case None
    with Inr run have "main fit daily_sales category_col external_factors external_factors_date_col
        = \<lparr>outcome = generate_forecast ms data category_col 90, trained = ms, written = fs\<rparr>"
      by (simp add: main_def)
    with n keys files fin None show ?thesis by (intro exI [of _ n]) simp
  next
    case (Some err)
    with Inr run have "main fit daily_sales category_col external_factors external_factors_date_col
        = \<lparr>outcome = Inl err, trained = ms, written = fs\<rparr>"
      by (simp add: main_def)
    with n keys files show ?thesis by (intro exI [of _ n]) simp
  qed
qed

text \<open>
  C10 as stated fails: on \<open>wide_sales\<close> the categories observed are the five
  configured ones and \<^verbatim>\<open>optics\<close>; models are trained and written for the five
  configured ones only.
\<close>

theorem main_ignores_observed_category:
  "unique (map category wide_sales) = PRODUCT_CATEGORIES @ [''optics''] \<and>
   map fst (trained (main mean_learner wide_sales ''category'' scenario_factors ''date''))
     = PRODUCT_CATEGORIES \<and>
   written (main mean_learner wide_sales ''category'' scenario_factors ''date'')
     = map model_path PRODUCT_CATEGORIES \<and>
   set (map fst (trained (main mean_learner wide_sales ''category'' scenario_factors ''date'')))
     \<noteq> set (map category wide_sales)"
proof -
  have obs: "unique (map category wide_sales) = PRODUCT_CATEGORIES @ [''optics'']"
    by code_simp
  have tr: "map fst (trained (main mean_learner wide_sales ''category'' scenario_factors ''date''))
     = PRODUCT_CATEGORIES"
    by code_simp
  have wr: "written (main mean_learner wide_sales ''category'' scenario_factors ''date'')
     = map model_path PRODUCT_CATEGORIES"
    by code_simp
  have "''optics'' \<in> set (unique (map category wide_sales))" unfolding obs by simp
  then have "''optics'' \<in> set (map category wide_sales)" by (simp add: unique_set)
  moreover have "''optics'' \<notin> set PRODUCT_CATEGORIES" by (simp add: PRODUCT_CATEGORIES_def)
  ultimately have "set (map fst (trained (main mean_learner wide_sales ''category'' scenario_factors ''date'')))
     \<noteq> set (map category wide_sales)"
    unfolding tr by metis
  with obs tr wr show ?thesis by simp
qed

end
